theory Spec2Isabelle
  imports Main
begin

section \<open>Python values handled by the client\<close>

text \<open>
  The client (examples/example.py) only ever handles values that come out of
  \<^verbatim>\<open>response.json()\<close> or that it writes as literals: None, booleans, unbounded
  integers, floats, strings, lists and dictionaries with string keys.  A dictionary is an
  association list; a lookup finds the first binding of a key.
\<close>

datatype pyfloat = Finite bool nat int | Infinity bool | NaN

datatype json =
    JNull
  | JBool bool
  | JInt int
  | JFloat pyfloat
  | JStr string
  | JArray "json list"
  | JObject "(string \<times> json) list"

text \<open>Python truthiness, as tested by \<^verbatim>\<open>if x:\<close> and \<^verbatim>\<open>x and y\<close>.\<close>

fun float_truthy :: "pyfloat \<Rightarrow> bool" where
  "float_truthy (Finite s m e) = (m \<noteq> 0)"
| "float_truthy (Infinity s) = True"
| "float_truthy NaN = True"

fun truthy :: "json \<Rightarrow> bool" where
  "truthy JNull = False"
| "truthy (JBool b) = b"
| "truthy (JInt i) = (i \<noteq> 0)"
| "truthy (JFloat f) = float_truthy f"
| "truthy (JStr s) = (s \<noteq> [])"
| "truthy (JArray xs) = (xs \<noteq> [])"
| "truthy (JObject kvs) = (kvs \<noteq> [])"

text \<open>
  Exceptions.  \<open>ConnectionError\<close> is \<^verbatim>\<open>requests.exceptions.ConnectionError\<close> (and its
  subclasses); \<open>OtherException\<close> is any other exception deriving from \<^verbatim>\<open>Exception\<close>
  that \<^verbatim>\<open>requests.get\<close>, \<^verbatim>\<open>requests.post\<close> or \<^verbatim>\<open>response.json()\<close> raises (a
  timeout, a body that is not JSON, ...), with its message.  The next four are raised by
  the interpreter on the value given: a missing attribute, an unsupported operation, a
  missing key, an index out of range.  \<open>KeyboardInterrupt\<close> and \<open>SystemExit\<close> derive from
  \<^verbatim>\<open>BaseException\<close> only; they reach the workflow out of a blocking HTTP call that is
  interrupted.
\<close>

datatype exn =
    ConnectionError string
  | OtherException string
  | AttributeError json string
  | TypeError json string
  | KeyError json
  | IndexError json
  | KeyboardInterrupt
  | SystemExit

text \<open>\<^verbatim>\<open>isinstance(e, requests.exceptions.ConnectionError)\<close>.\<close>

fun isinstance_ConnectionError :: "exn \<Rightarrow> bool" where
  "isinstance_ConnectionError (ConnectionError m) = True"
| "isinstance_ConnectionError e = False"

text \<open>\<^verbatim>\<open>isinstance(e, Exception)\<close>.\<close>

fun isinstance_Exception :: "exn \<Rightarrow> bool" where
  "isinstance_Exception (ConnectionError m) = True"
| "isinstance_Exception (OtherException m) = True"
| "isinstance_Exception (AttributeError v a) = True"
| "isinstance_Exception (TypeError v a) = True"
| "isinstance_Exception (KeyError k) = True"
| "isinstance_Exception (IndexError v) = True"
| "isinstance_Exception KeyboardInterrupt = False"
| "isinstance_Exception SystemExit = False"

text \<open>\<^verbatim>\<open>x.get(k)\<close>: only a dictionary has the method; a missing key gives None.\<close>

fun py_get :: "json \<Rightarrow> string \<Rightarrow> exn + json" where
  "py_get (JObject kvs) k = (case map_of kvs k of None \<Rightarrow> Inr JNull | Some v \<Rightarrow> Inr v)"
| "py_get v k = Inl (AttributeError v ''get'')"

text \<open>\<^verbatim>\<open>len(x)\<close>: strings, lists and dictionaries have a length.\<close>

fun py_len :: "json \<Rightarrow> exn + int" where
  "py_len (JStr s) = Inr (int (length s))"
| "py_len (JArray xs) = Inr (int (length xs))"
| "py_len (JObject kvs) = Inr (int (length (remdups (map fst kvs))))"
| "py_len v = Inl (TypeError v ''len'')"

text \<open>
  \<^verbatim>\<open>x[k]\<close> with a string key or an integer index.  A dictionary decoded from JSON has
  string keys only, so an integer is never one of its keys.  Sequences are indexed by
  integers, negative ones counting from the end.
\<close>

datatype pykey = KStr string | KInt int

definition seq_index :: "'a list \<Rightarrow> int \<Rightarrow> 'a option" where
  "seq_index xs i =
     (if 0 \<le> i \<and> i < int (length xs) then Some (xs ! nat i)
      else if i < 0 \<and> - int (length xs) \<le> i then Some (xs ! nat (int (length xs) + i))
      else None)"

fun py_getitem :: "json \<Rightarrow> pykey \<Rightarrow> exn + json" where
  "py_getitem (JObject kvs) (KStr k) =
     (case map_of kvs k of None \<Rightarrow> Inl (KeyError (JStr k)) | Some v \<Rightarrow> Inr v)"
| "py_getitem (JObject kvs) (KInt i) = Inl (KeyError (JInt i))"
| "py_getitem (JArray xs) (KInt i) =
     (case seq_index xs i of None \<Rightarrow> Inl (IndexError (JArray xs)) | Some v \<Rightarrow> Inr v)"
| "py_getitem (JStr s) (KInt i) =
     (case seq_index s i of None \<Rightarrow> Inl (IndexError (JStr s)) | Some c \<Rightarrow> Inr (JStr [c]))"
| "py_getitem v k = Inl (TypeError v ''getitem'')"

section \<open>The world: standard output, HTTP traffic, the clock\<close>

text \<open>
  A printed line or a URL is a list of pieces: literal text, the library's rendering
  \<^verbatim>\<open>json.dumps(x, indent=2)\<close> of a value, the f-string rendering \<^verbatim>\<open>{x}\<close> of a value,
  and \<^verbatim>\<open>{error}\<close> for an exception.  The renderings are library code and stay symbolic.
\<close>

datatype piece = Lit string | Dumps json | Str json | StrExn exn

type_synonym pytext = "piece list"

datatype http_method = GET | POST

record request =
  req_method :: http_method
  req_url :: pytext
  req_params :: "(string \<times> json) list"
  req_json :: "json option"

datatype event = Print pytext | Http request | Sleep nat

type_synonym world = "event list"

text \<open>
  The server and the network are a parameter: given the requests made so far and the
  present one, either the call (or the decoding of its body) raises, or there is a
  decoded body.
\<close>

type_synonym server = "request list \<Rightarrow> request \<Rightarrow> exn + json"

fun requests_of :: "world \<Rightarrow> request list" where
  "requests_of [] = []"
| "requests_of (Http r # w) = r # requests_of w"
| "requests_of (Print t # w) = requests_of w"
| "requests_of (Sleep n # w) = requests_of w"

type_synonym 'a io = "world \<Rightarrow> world \<times> (exn + 'a)"

definition return_io :: "'a \<Rightarrow> 'a io" where
  "return_io x w = (w, Inr x)"

definition lift_io :: "exn + 'a \<Rightarrow> 'a io" where
  "lift_io r w = (w, r)"

definition bind_io :: "'a io \<Rightarrow> ('a \<Rightarrow> 'b io) \<Rightarrow> 'b io" where
  "bind_io m f w = (case m w of (w', Inl e) \<Rightarrow> (w', Inl e) | (w', Inr x) \<Rightarrow> f x w')"

definition print_io :: "pytext \<Rightarrow> unit io" where
  "print_io t w = (w @ [Print t], Inr ())"

definition sleep_io :: "nat \<Rightarrow> unit io" where
  "sleep_io n w = (w @ [Sleep n], Inr ())"

text \<open>
  \<^verbatim>\<open>response = requests.get/post(...); result = response.json()\<close>: the request goes
  out, and the outcome is the server's.
\<close>

definition http_json :: "server \<Rightarrow> request \<Rightarrow> json io" where
  "http_json srv r w = (w @ [Http r], srv (requests_of w) r)"

section \<open>The client functions\<close>

definition API_URL :: string where
  "API_URL = ''http://localhost:3000''"

definition list_printers :: "server \<Rightarrow> json io" where
  "list_printers srv =
     bind_io (print_io [Lit ''Listing available printers...'']) (\<lambda>_.
     bind_io (http_json srv
        \<lparr>req_method = GET, req_url = [Lit (API_URL @ ''/printers'')],
         req_params = [], req_json = None\<rparr>) (\<lambda>result.
     bind_io (print_io [Dumps result]) (\<lambda>_.
     return_io result)))"

definition connect_printer :: "server \<Rightarrow> json \<Rightarrow> json \<Rightarrow> json io" where
  "connect_printer srv vendor_id product_id =
     bind_io (print_io [Lit ''Connecting to printer '', Str vendor_id, Lit '':'',
                        Str product_id, Lit ''...'']) (\<lambda>_.
     bind_io (http_json srv
        \<lparr>req_method = POST, req_url = [Lit (API_URL @ ''/printers/connect'')],
         req_params = [],
         req_json = Some (JObject [(''vendorId'', vendor_id), (''productId'', product_id)])\<rparr>)
       (\<lambda>result.
     bind_io (print_io [Dumps result]) (\<lambda>_.
     return_io result)))"

definition get_printer_status :: "server \<Rightarrow> json io" where
  "get_printer_status srv =
     bind_io (print_io [Lit ''Getting printer status...'']) (\<lambda>_.
     bind_io (http_json srv
        \<lparr>req_method = GET, req_url = [Lit (API_URL @ ''/printers/status'')],
         req_params = [], req_json = None\<rparr>) (\<lambda>result.
     bind_io (print_io [Dumps result]) (\<lambda>_.
     return_io result)))"

definition print_label :: "server \<Rightarrow> json \<Rightarrow> json io" where
  "print_label srv label_data =
     bind_io (print_io [Lit ''Submitting print job...'']) (\<lambda>_.
     bind_io (http_json srv
        \<lparr>req_method = POST, req_url = [Lit (API_URL @ ''/print'')],
         req_params = [], req_json = Some label_data\<rparr>) (\<lambda>result.
     bind_io (print_io [Lit ''Job created: '', Dumps result]) (\<lambda>_.
     return_io result)))"

definition print_custom_tspl :: "server \<Rightarrow> json \<Rightarrow> json io" where
  "print_custom_tspl srv tspl_commands =
     bind_io (print_io [Lit ''Submitting custom TSPL job...'']) (\<lambda>_.
     bind_io (http_json srv
        \<lparr>req_method = POST, req_url = [Lit (API_URL @ ''/print/custom'')],
         req_params = [], req_json = Some (JObject [(''tspl'', tspl_commands)])\<rparr>) (\<lambda>result.
     bind_io (print_io [Lit ''Job created: '', Dumps result]) (\<lambda>_.
     return_io result)))"

definition check_job_status :: "server \<Rightarrow> json \<Rightarrow> json io" where
  "check_job_status srv job_id =
     bind_io (print_io [Lit ''Checking job '', Str job_id, Lit ''...'']) (\<lambda>_.
     bind_io (http_json srv
        \<lparr>req_method = GET, req_url = [Lit (API_URL @ ''/jobs/''), Str job_id],
         req_params = [], req_json = None\<rparr>) (\<lambda>result.
     bind_io (print_io [Dumps result]) (\<lambda>_.
     return_io result)))"

text \<open>
  \<^verbatim>\<open>list_jobs(status=None, limit=None)\<close>: an argument left out is None.  The dictionary
  \<open>params\<close> starts empty and receives each argument that is truthy.
\<close>

definition list_jobs_params :: "json \<Rightarrow> json \<Rightarrow> (string \<times> json) list" where
  "list_jobs_params status limit =
     (let params = [];
          params = (if truthy status then params @ [(''status'', status)] else params);
          params = (if truthy limit then params @ [(''limit'', limit)] else params)
      in params)"

definition list_jobs :: "server \<Rightarrow> json \<Rightarrow> json \<Rightarrow> json io" where
  "list_jobs srv status limit =
     bind_io (print_io [Lit ''Listing jobs...'']) (\<lambda>_.
     bind_io (http_json srv
        \<lparr>req_method = GET, req_url = [Lit (API_URL @ ''/jobs'')],
         req_params = list_jobs_params status limit, req_json = None\<rparr>) (\<lambda>result.
     bind_io (print_io [Dumps result]) (\<lambda>_.
     return_io result)))"

definition get_queue_stats :: "server \<Rightarrow> json io" where
  "get_queue_stats srv =
     bind_io (print_io [Lit ''Getting queue statistics...'']) (\<lambda>_.
     bind_io (http_json srv
        \<lparr>req_method = GET, req_url = [Lit (API_URL @ ''/queue/stats'')],
         req_params = [], req_json = None\<rparr>) (\<lambda>result.
     bind_io (print_io [Dumps result]) (\<lambda>_.
     return_io result)))"

definition clear_completed_jobs :: "server \<Rightarrow> json io" where
  "clear_completed_jobs srv =
     bind_io (print_io [Lit ''Clearing completed jobs...'']) (\<lambda>_.
     bind_io (http_json srv
        \<lparr>req_method = POST, req_url = [Lit (API_URL @ ''/queue/clear'')],
         req_params = [], req_json = None\<rparr>) (\<lambda>result.
     bind_io (print_io [Dumps result]) (\<lambda>_.
     return_io result)))"

section \<open>The example workflow\<close>

definition sep :: string where
  "sep = CHR 0x0A # ''---'' @ [CHR 0x0A]"

text \<open>
  The test of step 2:
  \<^verbatim>\<open>printers.get('printers') and len(printers['printers']) > 0\<close>.
  The right operand is evaluated only when the left one is truthy.
\<close>

definition printers_listed :: "json \<Rightarrow> bool io" where
  "printers_listed printers =
     bind_io (lift_io (py_get printers ''printers'')) (\<lambda>found.
     if \<not> truthy found then return_io False
     else
       bind_io (lift_io (py_getitem printers (KStr ''printers''))) (\<lambda>ps.
       bind_io (lift_io (py_len ps)) (\<lambda>n.
       return_io (n > 0))))"

text \<open>Step 2 of main: connect to the first printer, if one is listed.\<close>

definition main_step2 :: "server \<Rightarrow> json \<Rightarrow> unit io" where
  "main_step2 srv printers =
     bind_io (printers_listed printers) (\<lambda>listed.
     if listed then
       bind_io (lift_io (py_getitem printers (KStr ''printers''))) (\<lambda>ps.
       bind_io (lift_io (py_getitem ps (KInt 0))) (\<lambda>printer.
       bind_io (lift_io (py_getitem printer (KStr ''vendorId''))) (\<lambda>vendor_id.
       bind_io (lift_io (py_getitem printer (KStr ''productId''))) (\<lambda>product_id.
       bind_io (connect_printer srv vendor_id product_id) (\<lambda>_.
       bind_io (print_io [Lit sep]) (\<lambda>_.
       bind_io (get_printer_status srv) (\<lambda>_.
       print_io [Lit sep])))))))
     else return_io ())"

text \<open>The argument of \<^verbatim>\<open>print_label\<close> in step 3.\<close>

definition main_label_data :: json where
  "main_label_data =
     JObject [(''pageConfig'', JStr ''default''),
              (''label'', JObject [(''qrData'', JStr ''https://example.com/product/ABC-123''),
                                   (''title'', JStr ''PRODUCT-ABC-123''),
                                   (''subtitle'', JStr ''Batch: 2026-01-15'')]),
              (''quantity'', JInt 1)]"

text \<open>
  The test of step 5:
  \<^verbatim>\<open>print_job.get('job') and print_job['job'].get('id')\<close>.
\<close>

definition job_id_present :: "json \<Rightarrow> bool io" where
  "job_id_present print_job =
     bind_io (lift_io (py_get print_job ''job'')) (\<lambda>found.
     if \<not> truthy found then return_io False
     else
       bind_io (lift_io (py_getitem print_job (KStr ''job''))) (\<lambda>job.
       bind_io (lift_io (py_get job ''id'')) (\<lambda>job_id.
       return_io (truthy job_id))))"

text \<open>Step 5 of main: check the status of the job just created, if it has an id.\<close>

definition main_step5 :: "server \<Rightarrow> json \<Rightarrow> unit io" where
  "main_step5 srv print_job =
     bind_io (job_id_present print_job) (\<lambda>present.
     if present then
       bind_io (lift_io (py_getitem print_job (KStr ''job''))) (\<lambda>job.
       bind_io (lift_io (py_getitem job (KStr ''id''))) (\<lambda>job_id.
       bind_io (check_job_status srv job_id) (\<lambda>_.
       print_io [Lit sep])))
     else return_io ())"

text \<open>Steps 3 to 7 of main, from the print job to the end of the \<^verbatim>\<open>try\<close> block.\<close>

definition main_steps3to7 :: "server \<Rightarrow> unit io" where
  "main_steps3to7 srv =
     bind_io (print_label srv main_label_data) (\<lambda>print_job.
     bind_io (print_io [Lit sep]) (\<lambda>_.
     bind_io (sleep_io 2) (\<lambda>_.
     bind_io (main_step5 srv print_job) (\<lambda>_.
     bind_io (get_queue_stats srv) (\<lambda>_.
     bind_io (print_io [Lit sep]) (\<lambda>_.
     bind_io (list_jobs srv JNull (JInt 5)) (\<lambda>_.
     print_io [Lit (CHR 0x0A # ''=== Example completed ==='')])))))))"

text \<open>The body of the \<^verbatim>\<open>try\<close> block of main.\<close>

definition main_body :: "server \<Rightarrow> unit io" where
  "main_body srv =
     bind_io (print_io [Lit (''=== Label Printer API Example ==='' @ [CHR 0x0A])]) (\<lambda>_.
     bind_io (list_printers srv) (\<lambda>printers.
     bind_io (print_io [Lit sep]) (\<lambda>_.
     bind_io (main_step2 srv printers) (\<lambda>_.
     main_steps3to7 srv))))"

text \<open>
  main: the body under its two handlers, \<^verbatim>\<open>except requests.exceptions.ConnectionError\<close>
  first, then \<^verbatim>\<open>except Exception as error\<close>.  An exception that neither clause
  matches leaves main.
\<close>

definition main :: "server \<Rightarrow> unit io" where
  "main srv w =
     (case main_body srv w of
        (w', Inr u) \<Rightarrow> (w', Inr u)
      | (w', Inl error) \<Rightarrow>
          if isinstance_ConnectionError error then
            bind_io (print_io [Lit ''Error: Could not connect to API server.'']) (\<lambda>_.
            print_io [Lit ''Make sure the Label Printer Server is running on port 3000.'']) w'
          else if isinstance_Exception error then
            print_io [Lit ''Error: '', StrExn error] w'
          else (w', Inl error))"

section \<open>Specification vocabulary\<close>

text \<open>
  What the specification calls request construction and response echoing, as one
  computation: print the announcement, make the one request, and, when the server's
  response decodes, print its rendering and return the decoded body as it is.  When the
  call or the decoding raises, the exception leaves with nothing more printed.
\<close>

definition echoed :: "server \<Rightarrow> pytext \<Rightarrow> request \<Rightarrow> (json \<Rightarrow> pytext) \<Rightarrow> json io" where
  "echoed srv announce req render w =
     (case srv (requests_of w) req of
        Inl e \<Rightarrow> (w @ [Print announce, Http req], Inl e)
      | Inr result \<Rightarrow> (w @ [Print announce, Http req, Print (render result)], Inr result))"

text \<open>Every request that a computation adds to the world satisfies \<open>P\<close>.\<close>

definition emits :: "'a io \<Rightarrow> (request \<Rightarrow> bool) \<Rightarrow> bool" where
  "emits m P \<longleftrightarrow> (\<forall>w. \<exists>w'. fst (m w) = w @ w' \<and> (\<forall>r \<in> set (requests_of w'). P r))"

text \<open>The requests of the nine client functions, by name.\<close>

definition listing_request :: request where
  "listing_request =
     \<lparr>req_method = GET, req_url = [Lit (API_URL @ ''/printers'')],
      req_params = [], req_json = None\<rparr>"

definition connect_request :: "json \<Rightarrow> json \<Rightarrow> request" where
  "connect_request vendor_id product_id =
     \<lparr>req_method = POST, req_url = [Lit (API_URL @ ''/printers/connect'')],
      req_params = [],
      req_json = Some (JObject [(''vendorId'', vendor_id), (''productId'', product_id)])\<rparr>"

definition status_request :: request where
  "status_request =
     \<lparr>req_method = GET, req_url = [Lit (API_URL @ ''/printers/status'')],
      req_params = [], req_json = None\<rparr>"

definition submit_request :: "json \<Rightarrow> request" where
  "submit_request label_data =
     \<lparr>req_method = POST, req_url = [Lit (API_URL @ ''/print'')],
      req_params = [], req_json = Some label_data\<rparr>"

definition raw_request :: "json \<Rightarrow> request" where
  "raw_request tspl_commands =
     \<lparr>req_method = POST, req_url = [Lit (API_URL @ ''/print/custom'')],
      req_params = [], req_json = Some (JObject [(''tspl'', tspl_commands)])\<rparr>"

definition job_request :: "json \<Rightarrow> request" where
  "job_request job_id =
     \<lparr>req_method = GET, req_url = [Lit (API_URL @ ''/jobs/''), Str job_id],
      req_params = [], req_json = None\<rparr>"

definition jobs_request :: "(string \<times> json) list \<Rightarrow> request" where
  "jobs_request ps =
     \<lparr>req_method = GET, req_url = [Lit (API_URL @ ''/jobs'')],
      req_params = ps, req_json = None\<rparr>"

definition stats_request :: request where
  "stats_request =
     \<lparr>req_method = GET, req_url = [Lit (API_URL @ ''/queue/stats'')],
      req_params = [], req_json = None\<rparr>"

definition clear_request :: request where
  "clear_request =
     \<lparr>req_method = POST, req_url = [Lit (API_URL @ ''/queue/clear'')],
      req_params = [], req_json = None\<rparr>"

text \<open>A server that answers every request with the empty object.\<close>

definition quiet_server :: server where
  "quiet_server history r = Inr (JObject [])"

text \<open>The requests that steps 3 to 7 can make, and those of the whole workflow.\<close>

definition late_request :: "request \<Rightarrow> bool" where
  "late_request r \<longleftrightarrow>
     r = submit_request main_label_data \<or> (\<exists>job_id. r = job_request job_id) \<or>
     r = stats_request \<or> r = jobs_request [(''limit'', JInt 5)]"

definition main_request :: "request \<Rightarrow> bool" where
  "main_request r \<longleftrightarrow>
     r = listing_request \<or> (\<exists>vendor_id product_id. r = connect_request vendor_id product_id) \<or>
     r = status_request \<or> late_request r"

text \<open>The field names of a JSON object, in order.\<close>

fun object_keys :: "json \<Rightarrow> string list" where
  "object_keys (JObject kvs) = map fst kvs"
| "object_keys v = []"

text \<open>
  More servers: one that refuses every connection, one whose calls are interrupted from
  the keyboard, one that lists a printer without fields, one that lists a printer with
  both ids, one that answers with a job that has an id.
\<close>

definition refusing_server :: server where
  "refusing_server history r = Inl (ConnectionError ''Connection refused'')"

definition interrupted_server :: server where
  "interrupted_server history r = Inl KeyboardInterrupt"

definition bare_printer_server :: server where
  "bare_printer_server history r = Inr (JObject [(''printers'', JArray [JObject []])])"





section \<open>The job queue of the server\<close>

text \<open>
  The server's Job Queue is not among the sources, which hold the example client only.  Its
  data model and operations are modelled from sections 3, 4.2 and 4.3 of the
  specification.  The clock is a parameter \<open>now\<close> of each operation that stamps a job.
\<close>

text \<open>Modelled from the spec: the job kinds of section 3, \<open>kind \<in> {StructuredLabel, RawCommand}\<close>.\<close>

datatype kind = StructuredLabel | RawCommand

text \<open>
  Modelled from the spec: the job statuses of section 3,
  \<open>status \<in> {Queued, Processing, Completed, Failed}\<close>.
\<close>

datatype status = Queued | Processing | Completed | Failed

text \<open>
  Modelled from the spec: the structured label description of section 3 (title, subtitle,
  QR data, page configuration, quantity).
\<close>

record label =
  title :: string
  subtitle :: string
  qrData :: string
  pageConfig :: string
  quantity :: int

text \<open>
  Modelled from the spec: a payload is ``either a structured label description or a raw
  opaque command-language blob''.
\<close>

datatype payload = Label label | Raw string

text \<open>Modelled from the spec: the Job record of section 3; \<open>jid\<close> is its \<open>id\<close>.\<close>

record job =
  jid :: nat
  job_kind :: kind
  job_payload :: payload
  job_status :: status
  createdAt :: nat
  startedAt :: "nat option"
  finishedAt :: "nat option"
  job_error :: "string option"

text \<open>
  Modelled from the spec: the Job Queue, ``an ordered sequence (FIFO by submission
  order)'' of jobs, with the next id to assign (ids are ``monotonically assigned'').
\<close>

record queue =
  jobs :: "job list"
  next_id :: nat

text \<open>Modelled from the spec: the failure of enqueue in the taxonomy of section 7.\<close>

datatype queue_error = ValidationError

text \<open>Modelled from the spec: the queue at process start, without jobs.\<close>

definition new_queue :: queue where
  "new_queue = \<lparr>jobs = [], next_id = 1\<rparr>"

text \<open>Modelled from the spec: the kind of a job is that of its payload.\<close>

fun kind_of :: "payload \<Rightarrow> kind" where
  "kind_of (Label l) = StructuredLabel"
| "kind_of (Raw commands) = RawCommand"

text \<open>
  Modelled from the spec: enqueue ``validates \<open>quantity \<ge> 1\<close> for structured jobs and that
  payload is non-empty for raw jobs''.
\<close>

fun valid_payload :: "payload \<Rightarrow> bool" where
  "valid_payload (Label l) = (1 \<le> quantity l)"
| "valid_payload (Raw commands) = (commands \<noteq> [])"

text \<open>
  Modelled from the spec: enqueue ``assigns id, sets status = Queued, createdAt = now;
  appends to the back of an ordered sequence''; a rejected submission creates no job.
\<close>

definition enqueue :: "nat \<Rightarrow> payload \<Rightarrow> queue \<Rightarrow> queue_error + nat \<times> queue" where
  "enqueue now p q =
     (if \<not> valid_payload p then Inl ValidationError
      else Inr (next_id q,
        q\<lparr>jobs := jobs q @
              [\<lparr>jid = next_id q, job_kind = kind_of p, job_payload = p,
                job_status = Queued, createdAt = now, startedAt = None,
                finishedAt = None, job_error = None\<rparr>],
          next_id := Suc (next_id q)\<rparr>))"

text \<open>
  Modelled from the spec: the search of dequeueNext for ``the earliest Queued job'', which
  it ``atomically transitions to Processing''; the result is that job and the new sequence.
\<close>

fun take_queued :: "nat \<Rightarrow> job list \<Rightarrow> (job \<times> job list) option" where
  "take_queued now [] = None"
| "take_queued now (j # js) =
     (if job_status j = Queued
      then Some (j\<lparr>job_status := Processing, startedAt := Some now\<rparr>,
                 j\<lparr>job_status := Processing, startedAt := Some now\<rparr> # js)
      else (case take_queued now js of
              None \<Rightarrow> None
            | Some (taken, js') \<Rightarrow> Some (taken, j # js')))"

text \<open>
  Modelled from the spec: dequeueNext ``returns the earliest Queued job and atomically
  transitions it to Processing, or none if no job is queued''.
\<close>

definition dequeueNext :: "nat \<Rightarrow> queue \<Rightarrow> job option \<times> queue" where
  "dequeueNext now q =
     (case take_queued now (jobs q) of
        None \<Rightarrow> (None, q)
      | Some (taken, js') \<Rightarrow> (Some taken, q\<lparr>jobs := js'\<rparr>))"

text \<open>
  Modelled from the spec: markCompleted ``transitions a Processing job to its terminal
  state, sets finishedAt''; a job that is not Processing is left as it is.
\<close>

definition markCompleted :: "nat \<Rightarrow> nat \<Rightarrow> queue \<Rightarrow> queue" where
  "markCompleted now i q =
     q\<lparr>jobs := map (\<lambda>j. if jid j = i \<and> job_status j = Processing
                         then j\<lparr>job_status := Completed, finishedAt := Some now\<rparr>
                         else j) (jobs q)\<rparr>"

text \<open>
  Modelled from the spec: markFailed ``transitions a Processing job to its terminal state,
  sets finishedAt'', and records the error; a job that is not Processing is left as it is.
\<close>

definition markFailed :: "nat \<Rightarrow> nat \<Rightarrow> string \<Rightarrow> queue \<Rightarrow> queue" where
  "markFailed now i err q =
     q\<lparr>jobs := map (\<lambda>j. if jid j = i \<and> job_status j = Processing
                         then j\<lparr>job_status := Failed, finishedAt := Some now,
                                job_error := Some err\<rparr>
                         else j) (jobs q)\<rparr>"

text \<open>Modelled from the spec: ``Completed/Failed are terminal''.\<close>

fun terminal :: "status \<Rightarrow> bool" where
  "terminal Completed = True"
| "terminal Failed = True"
| "terminal s = False"

text \<open>
  Modelled from the spec: clearCompleted ``removes all jobs with status Completed or Failed;
  returns count removed; does not affect Queued/Processing jobs''.
\<close>

definition clearCompleted :: "queue \<Rightarrow> nat \<times> queue" where
  "clearCompleted q =
     (length (filter (\<lambda>j. terminal (job_status j)) (jobs q)),
      q\<lparr>jobs := filter (\<lambda>j. \<not> terminal (job_status j)) (jobs q)\<rparr>)"

text \<open>
  A sequence of enqueue calls, each with its time and payload; the result has the ids of
  the accepted jobs, in order.
\<close>

fun enqueue_all :: "(nat \<times> payload) list \<Rightarrow> queue \<Rightarrow> nat list \<times> queue" where
  "enqueue_all [] q = ([], q)"
| "enqueue_all ((now, p) # subs) q =
     (case enqueue now p q of
        Inl e \<Rightarrow> enqueue_all subs q
      | Inr (i, q') \<Rightarrow> (case enqueue_all subs q' of (ids, q'') \<Rightarrow> (i # ids, q'')))"

text \<open>Repeated dequeueNext calls, one at each of the given times, with their results.\<close>

fun dequeue_all :: "nat list \<Rightarrow> queue \<Rightarrow> job option list \<times> queue" where
  "dequeue_all [] q = ([], q)"
| "dequeue_all (now # nows) q =
     (case dequeueNext now q of
        (r, q') \<Rightarrow> (case dequeue_all nows q' of (rs, q'') \<Rightarrow> (r # rs, q'')))"

text \<open>The mutating operations as a step function, and the states they reach.\<close>

datatype queue_op =
    Enqueue nat payload
  | DequeueNext nat
  | MarkCompleted nat nat
  | MarkFailed nat nat string
  | ClearCompleted

fun apply_op :: "queue_op \<Rightarrow> queue \<Rightarrow> queue" where
  "apply_op (Enqueue now p) q = (case enqueue now p q of Inl e \<Rightarrow> q | Inr (i, q') \<Rightarrow> q')"
| "apply_op (DequeueNext now) q = snd (dequeueNext now q)"
| "apply_op (MarkCompleted now i) q = markCompleted now i q"
| "apply_op (MarkFailed now i err) q = markFailed now i err q"
| "apply_op ClearCompleted q = snd (clearCompleted q)"

fun run :: "queue_op list \<Rightarrow> queue \<Rightarrow> queue" where
  "run [] q = q"
| "run (op # ops) q = run ops (apply_op op q)"

text \<open>The status of the job with a given id, if there is one.\<close>

definition status_of :: "queue \<Rightarrow> nat \<Rightarrow> status option" where
  "status_of q i = map_option job_status (find (\<lambda>j. jid j = i) (jobs q))"

text \<open>
  Modelled from the spec: the state machine of section 4.3,
  \<open>Queued \<rightarrow> Processing \<rightarrow> {Completed, Failed}\<close>, over the status of one job id before and
  after an operation (None: no job has the id).  A job appears as Queued, moves from
  Queued to Processing and from Processing to Completed or Failed, and only a terminal job
  disappears.
\<close>

fun allowed :: "status option \<Rightarrow> status option \<Rightarrow> bool" where
  "allowed None None = True"
| "allowed None (Some t) = (t = Queued)"
| "allowed (Some s) None = terminal s"
| "allowed (Some s) (Some t) =
     (s = t \<or> (s = Queued \<and> t = Processing) \<or>
      (s = Processing \<and> (t = Completed \<or> t = Failed)))"

text \<open>Ids are unique and below the next id to assign.\<close>

definition queue_inv :: "queue \<Rightarrow> bool" where
  "queue_inv q \<longleftrightarrow>
     distinct (map jid (jobs q)) \<and> (\<forall>j \<in> set (jobs q). jid j < next_id q)"

section \<open>Properties of the client\<close>

lemma requests_of_append: "requests_of (w @ w') = requests_of w @ requests_of w'"
  by (induction w rule: requests_of.induct) simp_all

lemma call_echoed:
  "bind_io (print_io announce) (\<lambda>_.
   bind_io (http_json srv req) (\<lambda>result.
   bind_io (print_io (render result)) (\<lambda>_.
   return_io result))) = echoed srv announce req render"
  by (rule ext)
     (simp add: bind_io_def print_io_def http_json_def return_io_def echoed_def
        requests_of_append split: sum.splits)

lemma list_printers_echoed:
  "list_printers srv =
     echoed srv [Lit ''Listing available printers...''] listing_request (\<lambda>result. [Dumps result])"
  unfolding list_printers_def listing_request_def by (rule call_echoed)

lemma connect_printer_echoed:
  "connect_printer srv vendor_id product_id =
     echoed srv [Lit ''Connecting to printer '', Str vendor_id, Lit '':'',
                 Str product_id, Lit ''...'']
       (connect_request vendor_id product_id) (\<lambda>result. [Dumps result])"
  unfolding connect_printer_def connect_request_def by (rule call_echoed)

lemma get_printer_status_echoed:
  "get_printer_status srv =
     echoed srv [Lit ''Getting printer status...''] status_request (\<lambda>result. [Dumps result])"
  unfolding get_printer_status_def status_request_def by (rule call_echoed)

lemma print_label_echoed:
  "print_label srv label_data =
     echoed srv [Lit ''Submitting print job...''] (submit_request label_data)
       (\<lambda>result. [Lit ''Job created: '', Dumps result])"
  unfolding print_label_def submit_request_def by (rule call_echoed)

lemma print_custom_tspl_echoed:
  "print_custom_tspl srv tspl_commands =
     echoed srv [Lit ''Submitting custom TSPL job...''] (raw_request tspl_commands)
       (\<lambda>result. [Lit ''Job created: '', Dumps result])"
  unfolding print_custom_tspl_def raw_request_def by (rule call_echoed)

lemma check_job_status_echoed:
  "check_job_status srv job_id =
     echoed srv [Lit ''Checking job '', Str job_id, Lit ''...''] (job_request job_id)
       (\<lambda>result. [Dumps result])"
  unfolding check_job_status_def job_request_def by (rule call_echoed)

lemma list_jobs_echoed:
  "list_jobs srv status limit =
     echoed srv [Lit ''Listing jobs...''] (jobs_request (list_jobs_params status limit))
       (\<lambda>result. [Dumps result])"
  unfolding list_jobs_def jobs_request_def by (rule call_echoed)

lemma get_queue_stats_echoed:
  "get_queue_stats srv =
     echoed srv [Lit ''Getting queue statistics...''] stats_request (\<lambda>result. [Dumps result])"
  unfolding get_queue_stats_def stats_request_def by (rule call_echoed)

lemma clear_completed_jobs_echoed:
  "clear_completed_jobs srv =
     echoed srv [Lit ''Clearing completed jobs...''] clear_request (\<lambda>result. [Dumps result])"
  unfolding clear_completed_jobs_def clear_request_def by (rule call_echoed)

lemma requests_of_echoed:
  "requests_of (fst (echoed srv announce req render w)) = requests_of w @ [req]"
  by (simp add: echoed_def requests_of_append split: sum.splits)

lemma emits_echoed: "P req \<Longrightarrow> emits (echoed srv announce req render) P"
  by (auto simp: emits_def echoed_def split: sum.splits)

lemma emits_return: "emits (return_io x) P"
  by (simp add: emits_def return_io_def)

lemma emits_lift: "emits (lift_io r) P"
  by (simp add: emits_def lift_io_def)

lemma emits_print: "emits (print_io t) P"
  by (simp add: emits_def print_io_def)

lemma emits_sleep: "emits (sleep_io n) P"
  by (simp add: emits_def sleep_io_def)

lemma emits_bind:
  assumes m: "emits m P" and f: "\<And>x. emits (f x) P"
  shows "emits (bind_io m f) P"
  unfolding emits_def
proof
  fix w
  from m obtain w1 where w1: "fst (m w) = w @ w1" "\<forall>r \<in> set (requests_of w1). P r"
    unfolding emits_def by blast
  show "\<exists>w'. fst (bind_io m f w) = w @ w' \<and> (\<forall>r \<in> set (requests_of w'). P r)"
  proof (cases "snd (m w)")
    case (Inl e)
    then have "bind_io m f w = (w @ w1, Inl e)"
      using w1(1) by (cases "m w") (simp add: bind_io_def)
    then show ?thesis using w1(2) by simp
  next
    case (Inr x)
    from f [of x] obtain w2 where
      w2: "fst (f x (w @ w1)) = (w @ w1) @ w2" "\<forall>r \<in> set (requests_of w2). P r"
      unfolding emits_def by blast
    have "bind_io m f w = f x (w @ w1)"
      using Inr w1(1) by (cases "m w") (simp add: bind_io_def)
    then have "fst (bind_io m f w) = w @ (w1 @ w2)" using w2(1) by simp
    moreover have "\<forall>r \<in> set (requests_of (w1 @ w2)). P r"
      using w1(2) w2(2) by (auto simp: requests_of_append)
    ultimately show ?thesis by blast
  qed
qed

lemma emits_if: "emits a P \<Longrightarrow> emits b P \<Longrightarrow> emits (if c then a else b) P"
  by simp

lemmas emits_intros =
  emits_bind emits_if emits_return emits_lift emits_print emits_sleep emits_echoed

lemma emits_requests:
  "emits m P \<Longrightarrow> \<forall>r \<in> set (requests_of w). P r \<Longrightarrow> \<forall>r \<in> set (requests_of (fst (m w))). P r"
  unfolding emits_def by (metis UnE requests_of_append set_append)

lemma emits_printers_listed: "emits (printers_listed printers) P"
  unfolding printers_listed_def by (intro emits_intros)

lemma emits_job_id_present: "emits (job_id_present print_job) P"
  unfolding job_id_present_def by (intro emits_intros)

lemma emits_main_step5: "emits (main_step5 srv print_job) late_request"
  unfolding main_step5_def check_job_status_echoed
  by (intro emits_intros emits_job_id_present) (auto simp: late_request_def)

lemma emits_main_steps3to7: "emits (main_steps3to7 srv) late_request"
  unfolding main_steps3to7_def print_label_echoed get_queue_stats_echoed list_jobs_echoed
  by (intro emits_intros emits_main_step5) (simp_all add: late_request_def list_jobs_params_def)

lemma emits_main_step2: "emits (main_step2 srv printers) main_request"
  unfolding main_step2_def connect_printer_echoed get_printer_status_echoed
  by (intro emits_intros emits_printers_listed) (auto simp: main_request_def)

lemma emits_weaken: "emits m P \<Longrightarrow> (\<And>r. P r \<Longrightarrow> Q r) \<Longrightarrow> emits m Q"
  unfolding emits_def by blast

lemma emits_main_body: "emits (main_body srv) main_request"
  unfolding main_body_def list_printers_echoed
  by (intro emits_intros emits_main_step2 emits_weaken [OF emits_main_steps3to7])
     (simp_all add: main_request_def)

lemma requests_of_main:
  "requests_of (fst (main srv w)) = requests_of (fst (main_body srv w))"
  by (simp add: main_def bind_io_def print_io_def requests_of_append
        split: prod.splits sum.splits)

lemma main_requests: "\<forall>r \<in> set (requests_of (fst (main srv []))). main_request r"
  unfolding requests_of_main by (rule emits_requests [OF emits_main_body]) simp

lemma main_quiet:
  "requests_of (fst (main quiet_server [])) =
     [listing_request, submit_request main_label_data, stats_request,
      jobs_request [(''limit'', JInt 5)]]"
  by (simp add: requests_of_main main_body_def main_steps3to7_def main_step2_def main_step5_def
      printers_listed_def job_id_present_def list_printers_echoed print_label_echoed
      get_queue_stats_echoed list_jobs_echoed echoed_def bind_io_def print_io_def sleep_io_def
      lift_io_def return_io_def quiet_server_def list_jobs_params_def requests_of_append)

text \<open>
  C1.  A structured job is submitted by a POST to the print endpoint whose JSON body is the
  argument \<open>label_data\<close> of \<^verbatim>\<open>print_label\<close>, unchanged; and whatever the server answers,
  every request of main to that endpoint carries exactly the fields pageConfig, label (with
  qrData, title, subtitle) and quantity.
\<close>

theorem print_label_sends_label_data:
  "requests_of (fst (print_label srv label_data w)) =
     requests_of w @
       [\<lparr>req_method = POST, req_url = [Lit ''http://localhost:3000/print''],
         req_params = [], req_json = Some label_data\<rparr>]
   \<and> (\<forall>r \<in> set (requests_of (fst (main srv []))).
         req_url r = [Lit ''http://localhost:3000/print''] \<longrightarrow>
         req_method r = POST \<and>
         req_json r =
           Some (JObject
             [(''pageConfig'', JStr ''default''),
              (''label'', JObject [(''qrData'', JStr ''https://example.com/product/ABC-123''),
                                   (''title'', JStr ''PRODUCT-ABC-123''),
                                   (''subtitle'', JStr ''Batch: 2026-01-15'')]),
              (''quantity'', JInt 1)]))"
proof (intro conjI ballI impI)
  show "requests_of (fst (print_label srv label_data w)) =
     requests_of w @
       [\<lparr>req_method = POST, req_url = [Lit ''http://localhost:3000/print''],
         req_params = [], req_json = Some label_data\<rparr>]"
    by (simp add: print_label_echoed requests_of_echoed submit_request_def API_URL_def)
next
  fix r
  assume r: "r \<in> set (requests_of (fst (main srv [])))"
    and u: "req_url r = [Lit ''http://localhost:3000/print'']"
  from r have "main_request r" using main_requests by blast
  with u have "r = submit_request main_label_data"
    by (auto simp: main_request_def late_request_def listing_request_def connect_request_def
        status_request_def job_request_def stats_request_def jobs_request_def API_URL_def)
  then show "req_method r = POST" and "req_json r =
           Some (JObject
             [(''pageConfig'', JStr ''default''),
              (''label'', JObject [(''qrData'', JStr ''https://example.com/product/ABC-123''),
                                   (''title'', JStr ''PRODUCT-ABC-123''),
                                   (''subtitle'', JStr ''Batch: 2026-01-15'')]),
              (''quantity'', JInt 1)])"
    by (simp_all add: submit_request_def main_label_data_def)
qed

theorem print_label_sends_label_data_witness:
  "req_url (requests_of (fst (main quiet_server [])) ! 1) = [Lit ''http://localhost:3000/print'']
   \<and> req_method (requests_of (fst (main quiet_server [])) ! 1) = POST
   \<and> object_keys (the (req_json (requests_of (fst (main quiet_server [])) ! 1))) =
       [''pageConfig'', ''label'', ''quantity'']"
proof -
  have m: "requests_of (fst (main quiet_server [])) ! 1 \<in> set (requests_of (fst (main quiet_server [])))"
    by (simp add: main_quiet)
  have u: "req_url (requests_of (fst (main quiet_server [])) ! 1) = [Lit ''http://localhost:3000/print'']"
    by (simp add: main_quiet submit_request_def API_URL_def)
  from print_label_sends_label_data [of quiet_server JNull "[]"] m u show ?thesis
    by simp
qed

text \<open>
  C2.  The specification names the single field of a raw job's body \<open>commandSequence\<close>;
  for the command \<^verbatim>\<open>CLS\<close> the keys of the body sent are not that.
\<close>

theorem print_custom_tspl_field_counterexample:
  "object_keys (the (req_json (last (requests_of
      (fst (print_custom_tspl quiet_server (JStr ''CLS'') []))))))
   \<noteq> [''commandSequence'']"
  by (simp add: print_custom_tspl_echoed requests_of_echoed raw_request_def)

text \<open>
  C2, as the code has it.  A raw job is submitted by a POST to the custom-print endpoint
  whose JSON body is an object with the single field \<open>tspl\<close>, carrying the raw command
  payload.
\<close>

theorem print_custom_tspl_sends_tspl:
  "requests_of (fst (print_custom_tspl srv tspl_commands w)) =
     requests_of w @
       [\<lparr>req_method = POST, req_url = [Lit ''http://localhost:3000/print/custom''],
         req_params = [], req_json = Some (JObject [(''tspl'', tspl_commands)])\<rparr>]"
  by (simp add: print_custom_tspl_echoed requests_of_echoed raw_request_def API_URL_def)

text \<open>
  C3.  Each client operation announces itself, makes its one request, and, when the
  server's response decodes, prints the decoded body and returns it unchanged: it is the
  computation \<^const>\<open>echoed\<close> at its own announcement, request and rendering.  Nothing else
  is added to the world.
\<close>

theorem operations_echo_response:
  "list_printers srv =
     echoed srv [Lit ''Listing available printers...'']
       \<lparr>req_method = GET, req_url = [Lit ''http://localhost:3000/printers''],
        req_params = [], req_json = None\<rparr>
       (\<lambda>result. [Dumps result])
   \<and> connect_printer srv vendor_id product_id =
     echoed srv
       [Lit ''Connecting to printer '', Str vendor_id, Lit '':'', Str product_id, Lit ''...'']
       \<lparr>req_method = POST, req_url = [Lit ''http://localhost:3000/printers/connect''],
        req_params = [],
        req_json = Some (JObject [(''vendorId'', vendor_id), (''productId'', product_id)])\<rparr>
       (\<lambda>result. [Dumps result])
   \<and> get_printer_status srv =
     echoed srv [Lit ''Getting printer status...'']
       \<lparr>req_method = GET, req_url = [Lit ''http://localhost:3000/printers/status''],
        req_params = [], req_json = None\<rparr>
       (\<lambda>result. [Dumps result])
   \<and> print_label srv label_data =
     echoed srv [Lit ''Submitting print job...'']
       \<lparr>req_method = POST, req_url = [Lit ''http://localhost:3000/print''],
        req_params = [], req_json = Some label_data\<rparr>
       (\<lambda>result. [Lit ''Job created: '', Dumps result])
   \<and> print_custom_tspl srv tspl_commands =
     echoed srv [Lit ''Submitting custom TSPL job...'']
       \<lparr>req_method = POST, req_url = [Lit ''http://localhost:3000/print/custom''],
        req_params = [], req_json = Some (JObject [(''tspl'', tspl_commands)])\<rparr>
       (\<lambda>result. [Lit ''Job created: '', Dumps result])
   \<and> check_job_status srv job_id =
     echoed srv [Lit ''Checking job '', Str job_id, Lit ''...'']
       \<lparr>req_method = GET, req_url = [Lit ''http://localhost:3000/jobs/'', Str job_id],
        req_params = [], req_json = None\<rparr>
       (\<lambda>result. [Dumps result])
   \<and> list_jobs srv status limit =
     echoed srv [Lit ''Listing jobs...'']
       \<lparr>req_method = GET, req_url = [Lit ''http://localhost:3000/jobs''],
        req_params = list_jobs_params status limit, req_json = None\<rparr>
       (\<lambda>result. [Dumps result])
   \<and> get_queue_stats srv =
     echoed srv [Lit ''Getting queue statistics...'']
       \<lparr>req_method = GET, req_url = [Lit ''http://localhost:3000/queue/stats''],
        req_params = [], req_json = None\<rparr>
       (\<lambda>result. [Dumps result])
   \<and> clear_completed_jobs srv =
     echoed srv [Lit ''Clearing completed jobs...'']
       \<lparr>req_method = POST, req_url = [Lit ''http://localhost:3000/queue/clear''],
        req_params = [], req_json = None\<rparr>
       (\<lambda>result. [Dumps result])"
  by (simp add: list_printers_echoed connect_printer_echoed get_printer_status_echoed
      print_label_echoed print_custom_tspl_echoed check_job_status_echoed list_jobs_echoed
      get_queue_stats_echoed clear_completed_jobs_echoed listing_request_def
      connect_request_def status_request_def submit_request_def raw_request_def
      job_request_def jobs_request_def stats_request_def clear_request_def API_URL_def)

text \<open>
  C6.  For all integers \<open>vendor_id\<close> and \<open>product_id\<close>, connecting sends one POST whose
  JSON body is the object with \<open>vendorId\<close> bound to \<open>vendor_id\<close> and \<open>productId\<close> bound to
  \<open>product_id\<close>.
\<close>

theorem connect_printer_sends_identity:
  "requests_of (fst (connect_printer srv (JInt vendor_id) (JInt product_id) w)) =
     requests_of w @
       [\<lparr>req_method = POST, req_url = [Lit ''http://localhost:3000/printers/connect''],
         req_params = [],
         req_json = Some (JObject [(''vendorId'', JInt vendor_id),
                                   (''productId'', JInt product_id)])\<rparr>]"
  by (simp add: connect_printer_echoed requests_of_echoed connect_request_def API_URL_def)

text \<open>
  C7.  A limit that is supplied need not be in the request: with \<^verbatim>\<open>limit=0\<close> a limit
  is supplied (it is not None) and the request has no such parameter.
\<close>

theorem list_jobs_supplied_counterexample:
  "\<not> ((''limit'' \<in> fst ` set (req_params (last (requests_of
          (fst (list_jobs quiet_server JNull (JInt 0) []))))))
       \<longleftrightarrow> JInt 0 \<noteq> JNull)"
  by (simp add: list_jobs_echoed requests_of_echoed jobs_request_def list_jobs_params_def)

text \<open>
  C7, as the code has it.  The status parameter is in the request exactly when the status
  argument is truthy, the limit parameter exactly when the limit argument is truthy, each
  with the argument as its value, and when neither argument is supplied the request has no
  query parameters.
\<close>

theorem list_jobs_params_iff_truthy:
  "requests_of (fst (list_jobs srv status limit w)) =
     requests_of w @
       [\<lparr>req_method = GET, req_url = [Lit ''http://localhost:3000/jobs''],
         req_params = (if truthy status then [(''status'', status)] else []) @
                      (if truthy limit then [(''limit'', limit)] else []),
         req_json = None\<rparr>]
   \<and> ((''status'' \<in> fst ` set (list_jobs_params status limit)) = truthy status)
   \<and> ((''limit'' \<in> fst ` set (list_jobs_params status limit)) = truthy limit)
   \<and> list_jobs_params JNull JNull = []"
  by (simp add: list_jobs_echoed requests_of_echoed jobs_request_def list_jobs_params_def
      API_URL_def)

text \<open>
  C8.  A limit of 0 is the same call as no limit, an empty status string the same call as
  no status, and each sends the request with no query parameter.
\<close>

theorem list_jobs_falsy_omitted:
  "list_jobs srv status (JInt 0) = list_jobs srv status JNull
   \<and> list_jobs srv (JStr []) limit = list_jobs srv JNull limit
   \<and> requests_of (fst (list_jobs srv JNull (JInt 0) w)) =
       requests_of w @
         [\<lparr>req_method = GET, req_url = [Lit ''http://localhost:3000/jobs''],
           req_params = [], req_json = None\<rparr>]
   \<and> requests_of (fst (list_jobs srv (JStr []) JNull w)) =
       requests_of w @
         [\<lparr>req_method = GET, req_url = [Lit ''http://localhost:3000/jobs''],
           req_params = [], req_json = None\<rparr>]"
  by (simp add: list_jobs_echoed requests_of_echoed jobs_request_def list_jobs_params_def
      API_URL_def)









lemma bind_lift_Inl: "bind_io (lift_io (Inl e)) f = lift_io (Inl e)"
  by (rule ext) (simp add: bind_io_def lift_io_def)






lemma main_body_bare_printer:
  "main_body bare_printer_server [] =
     ([Print [Lit (''=== Label Printer API Example ==='' @ [CHR 0x0A])],
       Print [Lit ''Listing available printers...''],
       Http listing_request,
       Print [Dumps (JObject [(''printers'', JArray [JObject []])])],
       Print [Lit sep]], Inl (KeyError (JStr ''vendorId'')))"
  by (simp add: main_body_def list_printers_echoed echoed_def bind_io_def print_io_def
      bare_printer_server_def main_step2_def printers_listed_def lift_io_def return_io_def
      seq_index_def)

lemma main_body_first_call_raises:
  "srv (requests_of w) listing_request = Inl e \<Longrightarrow>
   main_body srv w =
     (w @ [Print [Lit (''=== Label Printer API Example ==='' @ [CHR 0x0A])],
           Print [Lit ''Listing available printers...''],
           Http listing_request], Inl e)"
  by (simp add: main_body_def list_printers_echoed echoed_def bind_io_def print_io_def
      requests_of_append)

lemma main_body_quiet_returns: "snd (main_body quiet_server []) = Inr ()"
  by (simp add: main_body_def main_steps3to7_def main_step2_def main_step5_def
      printers_listed_def job_id_present_def list_printers_echoed print_label_echoed
      get_queue_stats_echoed list_jobs_echoed echoed_def bind_io_def print_io_def sleep_io_def
      lift_io_def return_io_def quiet_server_def list_jobs_params_def requests_of_append)

text \<open>
  C9.  Not every exception is caught: when the first HTTP call is interrupted from the
  keyboard, the KeyboardInterrupt matches neither handler and leaves main.
\<close>

theorem main_interrupt_propagates_counterexample:
  "snd (main interrupted_server []) = Inl KeyboardInterrupt"
  by (simp add: main_def main_body_first_call_raises interrupted_server_def)

text \<open>
  C9, as the code has it.  Whatever the server does, main returns normally exactly when its
  workflow returns or raises an exception that derives from \<^verbatim>\<open>Exception\<close>.  Such an
  exception is caught: a connection error prints the two-line hint naming port 3000, any
  other one prints \<^verbatim>\<open>Error: \<close> followed by the exception, and main returns.  An
  exception that does not derive from \<^verbatim>\<open>Exception\<close> (KeyboardInterrupt, SystemExit) is
  passed on to the caller of main, with nothing printed.
\<close>

theorem main_catches_Exception_only:
  "snd (main srv w) =
     (case snd (main_body srv w) of
        Inr u \<Rightarrow> Inr ()
      | Inl e \<Rightarrow> if isinstance_Exception e then Inr () else Inl e)
   \<and> (\<forall>w' e. main_body srv w = (w', Inl e) \<and> isinstance_Exception e \<longrightarrow>
         main srv w =
           (if isinstance_ConnectionError e
            then w' @ [Print [Lit ''Error: Could not connect to API server.''],
                       Print [Lit ''Make sure the Label Printer Server is running on port 3000.'']]
            else w' @ [Print [Lit ''Error: '', StrExn e]], Inr ()))
   \<and> (\<forall>w' e. main_body srv w = (w', Inl e) \<and> \<not> isinstance_Exception e \<longrightarrow>
         main srv w = (w', Inl e))
   \<and> (\<forall>w'. main_body srv w = (w', Inr ()) \<longrightarrow> main srv w = (w', Inr ()))
   \<and> (\<forall>m. srv (requests_of w) listing_request = Inl (ConnectionError m) \<longrightarrow>
         main srv w =
           (w @ [Print [Lit (''=== Label Printer API Example ==='' @ [CHR 0x0A])],
                 Print [Lit ''Listing available printers...''],
                 Http listing_request,
                 Print [Lit ''Error: Could not connect to API server.''],
                 Print [Lit ''Make sure the Label Printer Server is running on port 3000.'']],
            Inr ()))"
proof (intro conjI allI impI)
  show "snd (main srv w) =
     (case snd (main_body srv w) of
        Inr u \<Rightarrow> Inr ()
      | Inl e \<Rightarrow> if isinstance_Exception e then Inr () else Inl e)"
    by (cases "main_body srv w")
       (auto simp: main_def bind_io_def print_io_def split: sum.splits
          elim: isinstance_ConnectionError.elims)
next
  fix w' e
  assume "main_body srv w = (w', Inl e) \<and> isinstance_Exception e"
  then show "main srv w =
           (if isinstance_ConnectionError e
            then w' @ [Print [Lit ''Error: Could not connect to API server.''],
                       Print [Lit ''Make sure the Label Printer Server is running on port 3000.'']]
            else w' @ [Print [Lit ''Error: '', StrExn e]], Inr ())"
    by (simp add: main_def bind_io_def print_io_def)
next
  fix w' e
  assume a: "main_body srv w = (w', Inl e) \<and> \<not> isinstance_Exception e"
  then have "\<not> isinstance_ConnectionError e" by (cases e) simp_all
  with a show "main srv w = (w', Inl e)" by (simp add: main_def)
next
  fix w'
  assume "main_body srv w = (w', Inr ())"
  then show "main srv w = (w', Inr ())" by (simp add: main_def)
next
  fix m
  assume "srv (requests_of w) listing_request = Inl (ConnectionError m)"
  then show "main srv w =
           (w @ [Print [Lit (''=== Label Printer API Example ==='' @ [CHR 0x0A])],
                 Print [Lit ''Listing available printers...''],
                 Http listing_request,
                 Print [Lit ''Error: Could not connect to API server.''],
                 Print [Lit ''Make sure the Label Printer Server is running on port 3000.'']],
            Inr ())"
    by (simp add: main_def main_body_first_call_raises bind_io_def print_io_def)
qed

theorem main_catches_Exception_only_witness:
  "main refusing_server [] =
     ([Print [Lit (''=== Label Printer API Example ==='' @ [CHR 0x0A])],
       Print [Lit ''Listing available printers...''],
       Http listing_request,
       Print [Lit ''Error: Could not connect to API server.''],
       Print [Lit ''Make sure the Label Printer Server is running on port 3000.'']], Inr ())
   \<and> main bare_printer_server [] =
     ([Print [Lit (''=== Label Printer API Example ==='' @ [CHR 0x0A])],
       Print [Lit ''Listing available printers...''],
       Http listing_request,
       Print [Dumps (JObject [(''printers'', JArray [JObject []])])],
       Print [Lit sep],
       Print [Lit ''Error: '', StrExn (KeyError (JStr ''vendorId''))]], Inr ())
   \<and> main interrupted_server [] =
     ([Print [Lit (''=== Label Printer API Example ==='' @ [CHR 0x0A])],
       Print [Lit ''Listing available printers...''],
       Http listing_request], Inl KeyboardInterrupt)
   \<and> main quiet_server [] = (fst (main_body quiet_server []), Inr ())"
proof -
  have r: "refusing_server (requests_of []) listing_request =
      Inl (ConnectionError ''Connection refused'')"
    by (simp add: refusing_server_def)
  have b: "main_body bare_printer_server [] =
      ([Print [Lit (''=== Label Printer API Example ==='' @ [CHR 0x0A])],
        Print [Lit ''Listing available printers...''],
        Http listing_request,
        Print [Dumps (JObject [(''printers'', JArray [JObject []])])],
        Print [Lit sep]], Inl (KeyError (JStr ''vendorId''))) \<and>
      isinstance_Exception (KeyError (JStr ''vendorId''))"
    by (simp add: main_body_bare_printer)
  have i: "main_body interrupted_server [] =
      ([Print [Lit (''=== Label Printer API Example ==='' @ [CHR 0x0A])],
        Print [Lit ''Listing available printers...''],
        Http listing_request], Inl KeyboardInterrupt) \<and>
      \<not> isinstance_Exception KeyboardInterrupt"
    by (simp add: main_body_first_call_raises interrupted_server_def)
  have q: "main_body quiet_server [] = (fst (main_body quiet_server []), Inr ())"
    using main_body_quiet_returns by (cases "main_body quiet_server []") simp
  note t = main_catches_Exception_only
  from t [of refusing_server "[]", THEN conjunct2, THEN conjunct2, THEN conjunct2,
      THEN conjunct2, rule_format, OF r]
    t [of bare_printer_server "[]", THEN conjunct2, THEN conjunct1, rule_format, OF b]
    t [of interrupted_server "[]", THEN conjunct2, THEN conjunct2, THEN conjunct1,
      rule_format, OF i]
    t [of quiet_server "[]", THEN conjunct2, THEN conjunct2, THEN conjunct2,
      THEN conjunct1, rule_format, OF q]
  show ?thesis by simp
qed















lemma lift_io_result: "lift_io r w = (w', Inr x) \<Longrightarrow> r = Inr x"
  by (simp add: lift_io_def)



















section \<open>Properties of the job queue\<close>

lemma take_queued_None:
  "(take_queued now js = None) = (\<forall>j \<in> set js. job_status j \<noteq> Queued)"
  by (induction js) (auto split: option.splits)

lemma take_queued_Some:
  "take_queued now js = Some (taken, js') \<Longrightarrow>
     \<exists>before queued after. js = before @ queued # after \<and>
       (\<forall>b \<in> set before. job_status b \<noteq> Queued) \<and> job_status queued = Queued \<and>
       taken = queued\<lparr>job_status := Processing, startedAt := Some now\<rparr> \<and>
       js' = before @ taken # after"
proof (induction js arbitrary: js')
  case Nil
  then show ?case by simp
next
  case (Cons j js)
  show ?case
  proof (cases "job_status j = Queued")
    case True
    with Cons.prems show ?thesis
      by (intro exI [of _ "[]"] exI [of _ j] exI [of _ js]) auto
  next
    case False
    with Cons.prems obtain js'' where t: "take_queued now js = Some (taken, js'')"
      and js': "js' = j # js''"
      by (auto split: option.splits)
    from Cons.IH [OF t] obtain before queued after where
      "js = before @ queued # after" "\<forall>b \<in> set before. job_status b \<noteq> Queued"
      "job_status queued = Queued"
      "taken = queued\<lparr>job_status := Processing, startedAt := Some now\<rparr>"
      "js'' = before @ taken # after"
      by blast
    with False js' show ?thesis
      by (intro exI [of _ "j # before"] exI [of _ queued] exI [of _ after]) auto
  qed
qed

lemma enqueue_all_jobs:
  "enqueue_all subs q0 = (ids, q) \<Longrightarrow>
     \<exists>news. jobs q = jobs q0 @ news \<and> map jid news = ids \<and>
       map job_payload news = filter valid_payload (map snd subs) \<and>
       (\<forall>j \<in> set news. job_status j = Queued) \<and>
       ids = [next_id q0 ..< next_id q0 + length news] \<and>
       next_id q = next_id q0 + length news"
proof (induction subs arbitrary: q0 ids q)
  case Nil
  then show ?case by simp
next
  case (Cons sub subs)
  obtain now p where sub: "sub = (now, p)" by (cases sub)
  show ?case
  proof (cases "valid_payload p")
    case False
    with Cons.prems sub have "enqueue_all subs q0 = (ids, q)"
      by (simp add: enqueue_def)
    from Cons.IH [OF this] False sub show ?thesis by simp
  next
    case True
    let ?j = "\<lparr>jid = next_id q0, job_kind = kind_of p, job_payload = p,
                job_status = Queued, createdAt = now, startedAt = None,
                finishedAt = None, job_error = None\<rparr>"
    let ?q1 = "q0\<lparr>jobs := jobs q0 @ [?j], next_id := Suc (next_id q0)\<rparr>"
    from Cons.prems sub True obtain ids' where
      r: "enqueue_all subs ?q1 = (ids', q)" and ids: "ids = next_id q0 # ids'"
      by (auto simp: enqueue_def split: prod.splits)
    from Cons.IH [OF r] obtain news where
      n: "jobs q = jobs ?q1 @ news" "map jid news = ids'"
      "map job_payload news = filter valid_payload (map snd subs)"
      "\<forall>j \<in> set news. job_status j = Queued"
      "ids' = [next_id ?q1 ..< next_id ?q1 + length news]"
      "next_id q = next_id ?q1 + length news"
      by blast
    have u: "[next_id q0 ..< next_id q0 + length (?j # news)] =
        next_id q0 # [Suc (next_id q0) ..< Suc (next_id q0) + length news]"
      by (subst upt_rec) simp
    have "jobs q = jobs q0 @ (?j # news)" using n(1) by simp
    moreover have "map jid (?j # news) = ids" using n(2) ids by simp
    moreover have "map job_payload (?j # news) = filter valid_payload (map snd (sub # subs))"
      using n(3) True sub by simp
    moreover have "\<forall>j \<in> set (?j # news). job_status j = Queued" using n(4) by simp
    moreover have "ids = [next_id q0 ..< next_id q0 + length (?j # news)]"
      unfolding u using ids n(5) by simp
    moreover have "next_id q = next_id q0 + length (?j # news)" using n(6) by simp
    ultimately show ?thesis by blast
  qed
qed

lemma fst_dequeue_all_Cons:
  "fst (dequeue_all (now # nows) q) =
     fst (dequeueNext now q) # fst (dequeue_all nows (snd (dequeueNext now q)))"
  by (simp split: prod.splits)


lemma allowed_refl: "allowed x x"
  by (cases x) simp_all

lemma find_id_map:
  "(\<And>j. jid (f j) = jid j) \<Longrightarrow>
     find (\<lambda>j. jid j = i) (map f js) = map_option f (find (\<lambda>j. jid j = i) js)"
  by (induction js) simp_all

lemma find_id_append:
  "find (\<lambda>j. jid j = i) (js @ ks) =
     (case find (\<lambda>j. jid j = i) js of None \<Rightarrow> find (\<lambda>j. jid j = i) ks | Some j \<Rightarrow> Some j)"
  by (induction js) simp_all

lemma find_id_None: "(find (\<lambda>j. jid j = i) js = None) = (i \<notin> jid ` set js)"
  by (induction js) auto

lemma find_id_filter:
  "distinct (map jid js) \<Longrightarrow>
     find (\<lambda>j. jid j = i) (filter keep js) =
       (case find (\<lambda>j. jid j = i) js of
          None \<Rightarrow> None
        | Some j \<Rightarrow> if keep j then Some j else None)"
proof (induction js)
  case Nil
  then show ?case by simp
next
  case (Cons j js)
  show ?case
  proof (cases "jid j = i")
    case True
    with Cons.prems have "i \<notin> jid ` set (filter keep js)" by auto
    then have "find (\<lambda>j. jid j = i) (filter keep js) = None"
      by (simp add: find_id_None)
    with True show ?thesis by simp
  next
    case False
    with Cons show ?thesis by simp
  qed
qed

lemma take_queued_ids:
  "take_queued now js = Some (taken, js') \<Longrightarrow> map jid js' = map jid js"
  by (induction js arbitrary: js') (auto split: if_splits option.splits)

lemma take_queued_allowed:
  "take_queued now js = Some (taken, js') \<Longrightarrow>
     allowed (map_option job_status (find (\<lambda>j. jid j = i) js))
             (map_option job_status (find (\<lambda>j. jid j = i) js'))"
proof (induction js arbitrary: js')
  case Nil
  then show ?case by simp
next
  case (Cons j js)
  show ?case
  proof (cases "job_status j = Queued")
    case True
    with Cons.prems show ?thesis by (auto simp: allowed_refl)
  next
    case False
    with Cons.prems obtain js'' where "take_queued now js = Some (taken, js'')"
      and "js' = j # js''"
      by (auto split: option.splits)
    with Cons.IH [of js''] show ?thesis by (simp add: allowed_refl)
  qed
qed


lemma queue_inv_new: "queue_inv new_queue"
  by (simp add: queue_inv_def new_queue_def)

lemma jobs_apply_Enqueue:
  "jobs (apply_op (Enqueue now p) q) =
     (if valid_payload p
      then jobs q @ [\<lparr>jid = next_id q, job_kind = kind_of p, job_payload = p,
                job_status = Queued, createdAt = now, startedAt = None,
                finishedAt = None, job_error = None\<rparr>]
      else jobs q)"
  "next_id (apply_op (Enqueue now p) q) =
     (if valid_payload p then Suc (next_id q) else next_id q)"
  by (simp_all add: enqueue_def)

lemma jobs_apply_DequeueNext:
  "jobs (apply_op (DequeueNext now) q) =
     (case take_queued now (jobs q) of None \<Rightarrow> jobs q | Some (taken, js') \<Rightarrow> js')"
  "next_id (apply_op (DequeueNext now) q) = next_id q"
  by (simp_all add: dequeueNext_def split: option.splits)

lemma ids_apply_DequeueNext:
  "map jid (jobs (apply_op (DequeueNext now) q)) = map jid (jobs q)"
  by (cases "take_queued now (jobs q)") (auto simp: dequeueNext_def dest: take_queued_ids)

lemma ids_markCompleted: "map jid (jobs (markCompleted now i q)) = map jid (jobs q)"
  by (simp add: markCompleted_def comp_def if_distrib cong: if_cong)

lemma ids_markFailed: "map jid (jobs (markFailed now i err q)) = map jid (jobs q)"
  by (simp add: markFailed_def comp_def if_distrib cong: if_cong)

lemma queue_inv_ids:
  "queue_inv q \<longleftrightarrow>
     distinct (map jid (jobs q)) \<and> (\<forall>i \<in> set (map jid (jobs q)). i < next_id q)"
  by (auto simp: queue_inv_def)

lemma queue_inv_apply_op: "queue_inv q \<Longrightarrow> queue_inv (apply_op op q)"
proof (cases op)
  case (Enqueue now p)
  assume "queue_inv q"
  then show ?thesis
    unfolding Enqueue queue_inv_ids jobs_apply_Enqueue by (auto simp: less_Suc_eq)
next
  case (DequeueNext now)
  assume "queue_inv q"
  then show ?thesis
    unfolding DequeueNext queue_inv_ids ids_apply_DequeueNext jobs_apply_DequeueNext(2) .
next
  case (MarkCompleted now i)
  assume "queue_inv q"
  then show ?thesis
    unfolding MarkCompleted queue_inv_ids apply_op.simps ids_markCompleted
    by (simp add: markCompleted_def)
next
  case (MarkFailed now i err)
  assume "queue_inv q"
  then show ?thesis
    unfolding MarkFailed queue_inv_ids apply_op.simps ids_markFailed
    by (simp add: markFailed_def)
next
  case ClearCompleted
  assume "queue_inv q"
  then show ?thesis
    unfolding ClearCompleted queue_inv_def
    by (auto simp: clearCompleted_def distinct_map_filter)
qed

lemma queue_inv_run: "queue_inv q \<Longrightarrow> queue_inv (run ops q)"
  by (induction ops arbitrary: q) (simp_all add: queue_inv_apply_op)

lemma next_id_apply_op: "next_id q \<le> next_id (apply_op op q)"
  by (cases op)
     (simp_all add: jobs_apply_Enqueue jobs_apply_DequeueNext markCompleted_def markFailed_def
        clearCompleted_def del: apply_op.simps(1,2))

lemma status_of_Enqueue:
  "status_of (apply_op (Enqueue now p) q) i =
     (case status_of q i of
        Some s \<Rightarrow> Some s
      | None \<Rightarrow> if valid_payload p \<and> i = next_id q then Some Queued else None)"
  unfolding status_of_def jobs_apply_Enqueue
  by (cases "find (\<lambda>j. jid j = i) (jobs q)") (auto simp: find_id_append)

lemma find_id_Some: "find (\<lambda>j. jid j = i) js = Some j \<Longrightarrow> jid j = i"
  by (induction js) (auto split: if_splits)

lemma status_of_MarkCompleted:
  "status_of (markCompleted now k q) i =
     (if i = k \<and> status_of q i = Some Processing then Some Completed else status_of q i)"
  by (cases "find (\<lambda>j. jid j = i) (jobs q)")
     (auto simp: status_of_def markCompleted_def find_id_map dest: find_id_Some)

lemma status_of_MarkFailed:
  "status_of (markFailed now k err q) i =
     (if i = k \<and> status_of q i = Some Processing then Some Failed else status_of q i)"
  by (cases "find (\<lambda>j. jid j = i) (jobs q)")
     (auto simp: status_of_def markFailed_def find_id_map dest: find_id_Some)

lemma status_of_ClearCompleted:
  "queue_inv q \<Longrightarrow>
   status_of (snd (clearCompleted q)) i =
     (case status_of q i of None \<Rightarrow> None | Some s \<Rightarrow> if terminal s then None else Some s)"
  by (cases "find (\<lambda>j. jid j = i) (jobs q)")
     (auto simp: status_of_def clearCompleted_def find_id_filter queue_inv_def)

lemma status_of_DequeueNext:
  "allowed (status_of q i) (status_of (apply_op (DequeueNext now) q) i)"
  unfolding status_of_def jobs_apply_DequeueNext
  by (cases "take_queued now (jobs q)") (auto simp: allowed_refl take_queued_allowed)

lemma status_of_None: "(status_of q i = None) = (i \<notin> set (map jid (jobs q)))"
  by (simp add: status_of_def find_id_None)

lemma apply_op_allowed:
  assumes inv: "queue_inv q"
  shows "allowed (status_of q i) (status_of (apply_op op q) i)"
proof (cases op)
  case (Enqueue now p)
  show ?thesis unfolding Enqueue status_of_Enqueue
    by (cases "status_of q i") (simp_all add: allowed_refl)
next
  case (DequeueNext now)
  show ?thesis unfolding DequeueNext by (rule status_of_DequeueNext)
next
  case (MarkCompleted now k)
  show ?thesis unfolding MarkCompleted apply_op.simps status_of_MarkCompleted
    by (auto simp: allowed_refl)
next
  case (MarkFailed now k err)
  show ?thesis unfolding MarkFailed apply_op.simps status_of_MarkFailed
    by (auto simp: allowed_refl)
next
  case ClearCompleted
  show ?thesis unfolding ClearCompleted apply_op.simps status_of_ClearCompleted [OF inv]
    by (cases "status_of q i") (simp_all add: allowed_refl)
qed

lemma apply_op_fresh:
  assumes "status_of q i = None" and "status_of (apply_op op q) i \<noteq> None"
  shows "i = next_id q \<and> next_id (apply_op op q) = Suc (next_id q)"
proof (cases op)
  case (Enqueue now p)
  with assms show ?thesis
    by (simp add: status_of_Enqueue jobs_apply_Enqueue del: apply_op.simps split: if_splits)
next
  case (DequeueNext now)
  with assms show ?thesis
    by (simp add: status_of_None ids_apply_DequeueNext del: apply_op.simps)
next
  case (MarkCompleted now k)
  with assms show ?thesis by (simp add: status_of_MarkCompleted)
next
  case (MarkFailed now k err)
  with assms show ?thesis by (simp add: status_of_MarkFailed)
next
  case ClearCompleted
  with assms show ?thesis
    by (auto simp: status_of_None clearCompleted_def)
qed

lemma dequeue_all_order:
  "map (map_option (\<lambda>j. (jid j, job_payload j))) (fst (dequeue_all nows q)) =
     map Some (take (length nows)
       (map (\<lambda>j. (jid j, job_payload j)) (filter (\<lambda>j. job_status j = Queued) (jobs q)))) @
     replicate (length nows - length (filter (\<lambda>j. job_status j = Queued) (jobs q))) None"
proof (induction nows arbitrary: q)
  case Nil
  then show ?case by simp
next
  case (Cons now nows)
  show ?case
  proof (cases "take_queued now (jobs q)")
    case None
    then have f: "filter (\<lambda>j. job_status j = Queued) (jobs q) = []"
      by (simp add: take_queued_None)
    from None have d: "dequeueNext now q = (None, q)" by (simp add: dequeueNext_def)
    show ?thesis
      using Cons.IH [of q]
      by (simp add: fst_dequeue_all_Cons d f del: dequeue_all.simps)
  next
    case (Some r)
    obtain taken js' where r: "r = (taken, js')" by (cases r)
    from take_queued_Some [OF Some [unfolded r]] obtain before queued after where
      s: "jobs q = before @ queued # after" "\<forall>b \<in> set before. job_status b \<noteq> Queued"
         "job_status queued = Queued"
         "taken = queued\<lparr>job_status := Processing, startedAt := Some now\<rparr>"
         "js' = before @ taken # after"
      by blast
    from Some r have d: "dequeueNext now q = (Some taken, q\<lparr>jobs := js'\<rparr>)"
      by (simp add: dequeueNext_def)
    have b: "filter (\<lambda>j. job_status j = Queued) before = []"
      using s(2) by (simp add: filter_empty_conv)
    have f: "filter (\<lambda>j. job_status j = Queued) (jobs q) =
        queued # filter (\<lambda>j. job_status j = Queued) after"
      using s(1) s(3) b by simp
    have f': "filter (\<lambda>j. job_status j = Queued) js' =
        filter (\<lambda>j. job_status j = Queued) after"
      using s(4) s(5) b by simp
    have t: "(jid taken, job_payload taken) = (jid queued, job_payload queued)"
      using s(4) by simp
    show ?thesis
      using Cons.IH [of "q\<lparr>jobs := js'\<rparr>"] t
      by (simp add: fst_dequeue_all_Cons d f f' del: dequeue_all.simps)
  qed
qed

lemma dequeue_all_after_enqueue_all:
  assumes e: "enqueue_all subs q = (ids, q1)"
  shows "map (map_option (\<lambda>j. (jid j, job_payload j))) (fst (dequeue_all nows q1)) =
           map Some (take (length nows)
             (map (\<lambda>j. (jid j, job_payload j)) (filter (\<lambda>j. job_status j = Queued) (jobs q)) @
              zip ids (filter valid_payload (map snd subs)))) @
           replicate (length nows -
             (length (filter (\<lambda>j. job_status j = Queued) (jobs q)) + length ids)) None"
proof -
  from enqueue_all_jobs [OF e] obtain news where
    n: "jobs q1 = jobs q @ news" "map jid news = ids"
    "map job_payload news = filter valid_payload (map snd subs)"
    "\<forall>j \<in> set news. job_status j = Queued"
    by blast
  have z: "zip ids (filter valid_payload (map snd subs)) =
      map (\<lambda>j. (jid j, job_payload j)) news"
    unfolding n(2) [symmetric] n(3) [symmetric] by (simp add: zip_map_map zip_same_conv_map)
  have l: "length ids = length news" using n(2) by auto
  have f: "filter (\<lambda>j. job_status j = Queued) (jobs q1) =
      filter (\<lambda>j. job_status j = Queued) (jobs q) @ news"
    using n(1) n(4) by simp
  show ?thesis
    unfolding dequeue_all_order f z l by simp
qed

text \<open>
  C4.  dequeueNext returns none exactly when no job is Queued; otherwise it returns the
  earliest Queued job, now Processing, and changes nothing else.  After any sequence of
  enqueue calls on any queue, repeated dequeueNext calls return first the jobs that were
  Queued before, then the accepted jobs in submission order, by id and payload, and none
  from then on; the ids assigned are consecutive.
\<close>

theorem dequeueNext_fifo:
  "((fst (dequeueNext now q) = None) = (\<forall>j \<in> set (jobs q). job_status j \<noteq> Queued))
   \<and> (\<forall>taken q'. dequeueNext now q = (Some taken, q') \<longrightarrow>
        (\<exists>before queued after.
           jobs q = before @ queued # after \<and>
           (\<forall>b \<in> set before. job_status b \<noteq> Queued) \<and> job_status queued = Queued \<and>
           taken = queued\<lparr>job_status := Processing, startedAt := Some now\<rparr> \<and>
           jobs q' = before @ taken # after))
   \<and> (\<forall>subs ids q1 nows. enqueue_all subs q = (ids, q1) \<longrightarrow>
        map (map_option (\<lambda>j. (jid j, job_payload j))) (fst (dequeue_all nows q1)) =
          map Some (take (length nows)
            (map (\<lambda>j. (jid j, job_payload j)) (filter (\<lambda>j. job_status j = Queued) (jobs q)) @
             zip ids (filter valid_payload (map snd subs)))) @
          replicate (length nows -
            (length (filter (\<lambda>j. job_status j = Queued) (jobs q)) + length ids)) None \<and>
        ids = [next_id q ..< next_id q + length ids])"
proof (intro conjI allI impI)
  show "(fst (dequeueNext now q) = None) = (\<forall>j \<in> set (jobs q). job_status j \<noteq> Queued)"
    unfolding take_queued_None [of now, symmetric]
    by (simp add: dequeueNext_def split: option.splits)
next
  fix taken q'
  assume d: "dequeueNext now q = (Some taken, q')"
  then obtain js' where t: "take_queued now (jobs q) = Some (taken, js')"
    and q': "jobs q' = js'"
    by (auto simp: dequeueNext_def split: option.splits)
  from take_queued_Some [OF t] q'
  show "\<exists>before queued after.
           jobs q = before @ queued # after \<and>
           (\<forall>b \<in> set before. job_status b \<noteq> Queued) \<and> job_status queued = Queued \<and>
           taken = queued\<lparr>job_status := Processing, startedAt := Some now\<rparr> \<and>
           jobs q' = before @ taken # after"
    by simp
next
  fix subs ids q1 nows
  assume "enqueue_all subs q = (ids, q1)"
  then show "map (map_option (\<lambda>j. (jid j, job_payload j))) (fst (dequeue_all nows q1)) =
          map Some (take (length nows)
            (map (\<lambda>j. (jid j, job_payload j)) (filter (\<lambda>j. job_status j = Queued) (jobs q)) @
             zip ids (filter valid_payload (map snd subs)))) @
          replicate (length nows -
            (length (filter (\<lambda>j. job_status j = Queued) (jobs q)) + length ids)) None"
    by (rule dequeue_all_after_enqueue_all)
next
  fix subs ids q1 nows
  assume "enqueue_all subs q = (ids, q1)"
  from enqueue_all_jobs [OF this] show "ids = [next_id q ..< next_id q + length ids]"
    by auto
qed

lemma enqueue_all_example:
  "enqueue_all [(10, Raw ''A''), (11, Raw []), (12, Raw ''B'')] new_queue =
     ([1, 2],
      \<lparr>jobs = [\<lparr>jid = 1, job_kind = RawCommand, job_payload = Raw ''A'',
                 job_status = Queued, createdAt = 10, startedAt = None,
                 finishedAt = None, job_error = None\<rparr>,
               \<lparr>jid = 2, job_kind = RawCommand, job_payload = Raw ''B'',
                 job_status = Queued, createdAt = 12, startedAt = None,
                 finishedAt = None, job_error = None\<rparr>],
        next_id = 3\<rparr>)"
  by (simp add: enqueue_def new_queue_def)

theorem dequeueNext_fifo_witness:
  "map (map_option (\<lambda>j. (jid j, job_payload j)))
     (fst (dequeue_all [20, 21, 22]
        (snd (enqueue_all [(10, Raw ''A''), (11, Raw []), (12, Raw ''B'')] new_queue)))) =
     [Some (1, Raw ''A''), Some (2, Raw ''B''), None]
   \<and> fst (dequeueNext 20 new_queue) = None
   \<and> (\<exists>queued after.
        jobs (snd (enqueue_all [(10, Raw ''A''), (11, Raw []), (12, Raw ''B'')] new_queue)) =
          queued # after \<and> job_status queued = Queued)"
proof -
  let ?subs = "[(10::nat, Raw ''A''), (11, Raw []), (12, Raw ''B'')]"
  let ?q1 = "snd (enqueue_all ?subs new_queue)"
  note fifo = dequeueNext_fifo [of 20 new_queue]
  have e: "enqueue_all ?subs new_queue = ([1, 2], ?q1)"
    unfolding enqueue_all_example by simp
  note fifo [THEN conjunct2, THEN conjunct2, rule_format,
      of ?subs "[1, 2]" ?q1 "[20, 21, 22]", OF e, THEN conjunct1]
  then have 1: "map (map_option (\<lambda>j. (jid j, job_payload j)))
      (fst (dequeue_all [20, 21, 22] ?q1)) = [Some (1, Raw ''A''), Some (2, Raw ''B''), None]"
    by (simp add: numeral_eq_Suc new_queue_def)
  from fifo have 2: "fst (dequeueNext 20 new_queue) = None"
    by (simp add: new_queue_def)
  let ?t = "\<lparr>jid = 1, job_kind = RawCommand, job_payload = Raw ''A'',
              job_status = Processing, createdAt = 10, startedAt = Some 20,
              finishedAt = None, job_error = None\<rparr>"
  have d: "dequeueNext 20 ?q1 = (Some ?t, snd (dequeueNext 20 ?q1))"
    unfolding enqueue_all_example by (simp add: dequeueNext_def)
  from dequeueNext_fifo [of 20 ?q1, THEN conjunct2, THEN conjunct1, rule_format, OF d]
  obtain before queued after where
    s: "jobs ?q1 = before @ queued # after" "\<forall>b \<in> set before. job_status b \<noteq> Queued"
      "job_status queued = Queued"
    by blast
  have "before = []"
  proof (cases before)
    case Nil then show ?thesis .
  next
    case (Cons b bs)
    with s(1) s(2) show ?thesis unfolding enqueue_all_example by auto
  qed
  with s(1) s(3) 1 2 show ?thesis by auto
qed

text \<open>
  C5.  In every state reached from the new queue, every operation moves the status of
  every job id along \<^const>\<open>allowed\<close>: a job appears as Queued, goes from Queued to
  Processing and from Processing to Completed or Failed, and only a terminal job is
  removed.  A job that appears has the fresh id \<open>next_id\<close>; the ids of the jobs present
  are below \<open>next_id\<close>, which never decreases, so the id of a removed job is not given
  again and no job re-enters Queued.
\<close>

theorem status_transitions:
  "allowed (status_of (run ops new_queue) i) (status_of (apply_op op (run ops new_queue)) i)
   \<and> (status_of (run ops new_queue) i = None \<and>
      status_of (apply_op op (run ops new_queue)) i \<noteq> None \<longrightarrow>
        status_of (apply_op op (run ops new_queue)) i = Some Queued \<and>
        i = next_id (run ops new_queue) \<and>
        next_id (apply_op op (run ops new_queue)) = Suc i)
   \<and> (\<forall>j \<in> set (jobs (run ops new_queue)). jid j < next_id (run ops new_queue))
   \<and> next_id (run ops new_queue) \<le> next_id (apply_op op (run ops new_queue))"
proof -
  let ?q = "run ops new_queue"
  have inv: "queue_inv ?q" by (rule queue_inv_run [OF queue_inv_new])
  have a: "allowed (status_of ?q i) (status_of (apply_op op ?q) i)"
    by (rule apply_op_allowed [OF inv])
  have f: "status_of (apply_op op ?q) i = Some Queued \<and> i = next_id ?q \<and>
      next_id (apply_op op ?q) = Suc i"
    if n: "status_of ?q i = None" "status_of (apply_op op ?q) i \<noteq> None"
  proof -
    from n obtain t where t: "status_of (apply_op op ?q) i = Some t" by auto
    with a n(1) have "t = Queued" by simp
    with t apply_op_fresh [OF n] show ?thesis by simp
  qed
  from inv have b: "\<forall>j \<in> set (jobs ?q). jid j < next_id ?q"
    by (simp add: queue_inv_def)
  from a f b next_id_apply_op [of ?q op] show ?thesis by blast
qed

theorem status_transitions_witness:
  "status_of (run [Enqueue 5 (Raw ''CLS'')] new_queue) 2 = None
   \<and> status_of (apply_op (Enqueue 6 (Raw ''CLS'')) (run [Enqueue 5 (Raw ''CLS'')] new_queue)) 2
       = Some Queued
   \<and> next_id (run [Enqueue 5 (Raw ''CLS'')] new_queue) = 2
   \<and> next_id (apply_op (Enqueue 6 (Raw ''CLS'')) (run [Enqueue 5 (Raw ''CLS'')] new_queue)) = 3
   \<and> map jid (jobs (run [Enqueue 5 (Raw ''CLS'')] new_queue)) = [1]"
proof -
  let ?q = "run [Enqueue 5 (Raw ''CLS'')] new_queue"
  have q: "?q =
      \<lparr>jobs = [\<lparr>jid = 1, job_kind = RawCommand, job_payload = Raw ''CLS'',
                 job_status = Queued, createdAt = 5, startedAt = None,
                 finishedAt = None, job_error = None\<rparr>], next_id = 2\<rparr>"
    by (simp add: enqueue_def new_queue_def)
  have n: "status_of ?q 2 = None"
    unfolding q by (simp add: status_of_def)
  have s: "status_of (apply_op (Enqueue 6 (Raw ''CLS'')) ?q) 2 \<noteq> None"
    unfolding q by (simp add: status_of_def enqueue_def)
  have i: "map jid (jobs ?q) = [1]" "next_id ?q = 2"
    unfolding q by simp_all
  from status_transitions [of "[Enqueue 5 (Raw ''CLS'')]" 2 "Enqueue 6 (Raw ''CLS'')"] n s
  have "status_of (apply_op (Enqueue 6 (Raw ''CLS'')) ?q) 2 = Some Queued"
    and "next_id (apply_op (Enqueue 6 (Raw ''CLS'')) ?q) = Suc 2"
    by blast+
  with n i show ?thesis by (simp del: run.simps apply_op.simps)
qed

end
